theory Spec2Isabelle
  imports Main
begin

section \<open>Time\<close>

text \<open>
  A point in time is the number of microseconds since the epoch, the resolution of
  Python's \<open>datetime\<close>; a \<open>timedelta\<close> is a number of microseconds. Every clock
  read of one request (\<open>datetime.now(timezone.utc)\<close>, \<open>datetime.utcnow()\<close>) is the
  argument \<open>now\<close> of the operation. A signed token carries whole seconds
  (\<open>timegm(d.utctimetuple())\<close> drops the microseconds).
\<close>

type_synonym datetime = int
type_synonym timedelta = int

definition timedelta_minutes :: "int \<Rightarrow> timedelta" where
  "timedelta_minutes m = m * 60000000"

definition timedelta_days :: "int \<Rightarrow> timedelta" where
  "timedelta_days d = d * 86400000000"

definition timegm :: "datetime \<Rightarrow> int" where
  "timegm t = t div 1000000"

section \<open>Configuration (app/core/config.py)\<close>

record Settings =
  JWT_SECRET_KEY :: string
  JWT_REFRESH_SECRET_KEY :: string
  JWT_ALGORITHM :: string
  JWT_ISSUER :: string
  ACCESS_TOKEN_EXPIRE_MINUTES :: int
  REFRESH_TOKEN_EXPIRE_DAYS :: int

section \<open>Signed tokens (app/core/security.py, app/schemas/token.py)\<close>

datatype TokenType = ACCESS | REFRESH

fun TokenType_value :: "TokenType \<Rightarrow> string" where
  "TokenType_value ACCESS = ''access''"
| "TokenType_value REFRESH = ''refresh''"

text \<open>
  The claim set of a token is a dictionary; \<open>payload.get k\<close> is the field, \<open>None\<close> when
  the key is absent.
\<close>

record claims =
  c_sub :: "string option"
  c_exp :: "int option"
  c_iat :: "int option"
  c_type :: "string option"
  c_iss :: "string option"
  c_scopes :: "string list option"

definition no_claims :: claims where
  "no_claims = \<lparr>c_sub = None, c_exp = None, c_iat = None, c_type = None, c_iss = None,
     c_scopes = None\<rparr>"

text \<open>
  The library \<open>jose.jwt\<close> is modelled symbolically: a token string is either the
  encoding of a claim set signed under a key with an algorithm, or a string that is no
  token at all. A signature verifies under the key it was made with and under no other.
\<close>

datatype jwt = Signed claims string string | Malformed string

definition jwt_encode :: "claims \<Rightarrow> string \<Rightarrow> string \<Rightarrow> jwt" where
  "jwt_encode to_encode key algorithm = Signed to_encode key algorithm"

text \<open>
  \<open>jwt.decode(token, key, algorithms, options={"verify_aud": False})\<close>: \<open>None\<close> is a
  raised \<open>JWTError\<close> (bad signature, algorithm not allowed, or an \<open>exp\<close> claim that lies
  before the current second).
\<close>

definition jwt_decode :: "jwt \<Rightarrow> string \<Rightarrow> string list \<Rightarrow> datetime \<Rightarrow> claims option" where
  "jwt_decode token key algorithms now =
     (case token of
        Malformed _ \<Rightarrow> None
      | Signed payload k a \<Rightarrow>
          if k \<noteq> key \<or> a \<notin> set algorithms then None
          else (case c_exp payload of
                  None \<Rightarrow> Some payload
                | Some e \<Rightarrow> if e < timegm now then None else Some payload))"

definition create_token ::
  "Settings \<Rightarrow> datetime \<Rightarrow> claims \<Rightarrow> TokenType \<Rightarrow> timedelta option \<Rightarrow> jwt" where
  "create_token settings now data token_type expires_delta =
     (let expire =
        (case expires_delta of
           Some d \<Rightarrow>
             if d \<noteq> 0 then now + d
             else if token_type = ACCESS
               then now + timedelta_minutes (ACCESS_TOKEN_EXPIRE_MINUTES settings)
               else now + timedelta_days (REFRESH_TOKEN_EXPIRE_DAYS settings)
         | None \<Rightarrow>
             if token_type = ACCESS
               then now + timedelta_minutes (ACCESS_TOKEN_EXPIRE_MINUTES settings)
               else now + timedelta_days (REFRESH_TOKEN_EXPIRE_DAYS settings));
        to_encode = data\<lparr>c_exp := Some (timegm expire), c_iat := Some (timegm now),
          c_type := Some (TokenType_value token_type), c_iss := Some (JWT_ISSUER settings)\<rparr>
      in jwt_encode to_encode (JWT_SECRET_KEY settings) (JWT_ALGORITHM settings))"

definition create_access_token :: "Settings \<Rightarrow> datetime \<Rightarrow> claims \<Rightarrow> jwt" where
  "create_access_token settings now data =
     create_token settings now data ACCESS
       (Some (timedelta_minutes (ACCESS_TOKEN_EXPIRE_MINUTES settings)))"

definition create_refresh_token :: "Settings \<Rightarrow> datetime \<Rightarrow> claims \<Rightarrow> jwt" where
  "create_refresh_token settings now data =
     create_token settings now data REFRESH
       (Some (timedelta_days (REFRESH_TOKEN_EXPIRE_DAYS settings)))"

text \<open>
  What an operation raises: an \<open>HTTPException\<close> with its status code, detail and
  headers; the \<open>IntegrityError\<close> of a statement that the database rejects; and, in a
  retention task, what \<open>self.retry(exc=e)\<close> raises for the exception \<open>e\<close>, written
  \<open>Retry e\<close>.
\<close>

datatype raised =
    HTTPException nat string "(string \<times> string) list"
  | IntegrityError
  | Retry raised

definition verify_token :: "Settings \<Rightarrow> datetime \<Rightarrow> jwt \<Rightarrow> raised + claims" where
  "verify_token settings now token =
     (case jwt_decode token (JWT_SECRET_KEY settings) [JWT_ALGORITHM settings] now of
        Some payload \<Rightarrow> Inr payload
      | None \<Rightarrow> Inl (HTTPException 400 ''Invalid token'' []))"

text \<open>
  \<open>TokenData\<close> is a pydantic model whose fields \<open>sub\<close>, \<open>type\<close>, \<open>exp\<close>, \<open>iat\<close> and
  \<open>iss\<close> are required. Its constructor takes keyword arguments, here one optional
  argument per field; a keyword that names no field is ignored. \<open>None\<close> as result is a
  raised \<open>ValidationError\<close>.
\<close>

record TokenData =
  td_sub :: string
  td_scopes :: "string list"
  td_type :: TokenType
  td_exp :: int
  td_iat :: int
  td_iss :: string
  td_jti :: "string option"

definition TokenData_init ::
  "string option \<Rightarrow> string list option \<Rightarrow> TokenType option \<Rightarrow> int option \<Rightarrow> int option \<Rightarrow>
   string option \<Rightarrow> string option \<Rightarrow> TokenData option" where
  "TokenData_init sub scopes type exp iat iss jti =
     (case (sub, type, exp, iat, iss) of
        (Some s, Some t, Some e, Some i, Some is) \<Rightarrow>
          Some \<lparr>td_sub = s, td_scopes = (case scopes of Some sc \<Rightarrow> sc | None \<Rightarrow> []),
            td_type = t, td_exp = e, td_iat = i, td_iss = is, td_jti = jti\<rparr>
      | _ \<Rightarrow> None)"

fun scope_str :: "string list \<Rightarrow> string" where
  "scope_str [] = []"
| "scope_str [s] = s"
| "scope_str (s # ss) = s @ '' '' @ scope_str ss"

text \<open>
  \<open>get_current_user\<close>: the token is decoded, \<open>sub\<close> must be present, \<open>type\<close> must be
  \<open>access\<close>, then \<open>TokenData(scopes=token_scopes, user_id=user_id)\<close> is built (the
  keyword \<open>user_id\<close> names no field of \<open>TokenData\<close>) and the required scopes are
  checked. The two \<open>HTTPException\<close>s raised inside the \<open>try\<close> are not caught by
  \<open>except (JWTError, ValidationError)\<close>. The result on success is the pair of the
  user id and the scopes (the source reads them from \<open>token_data\<close>).
\<close>

definition get_current_user ::
  "Settings \<Rightarrow> datetime \<Rightarrow> string list \<Rightarrow> jwt \<Rightarrow> raised + (string \<times> string list)" where
  "get_current_user settings now security_scopes token =
     (let authenticate_value =
            (if security_scopes \<noteq> []
             then ''Bearer scope='' @ [CHR 0x22] @ scope_str security_scopes @ [CHR 0x22]
             else ''Bearer'');
          credentials_exception =
            HTTPException 401 ''Could not validate credentials''
              [(''WWW-Authenticate'', authenticate_value)]
      in case jwt_decode token (JWT_SECRET_KEY settings) [JWT_ALGORITHM settings] now of
           None \<Rightarrow> Inl credentials_exception
         | Some payload \<Rightarrow>
             (case c_sub payload of
                None \<Rightarrow> Inl credentials_exception
              | Some user_id \<Rightarrow>
                  (let token_scopes = (case c_scopes payload of Some sc \<Rightarrow> sc | None \<Rightarrow> []);
                       token_type = c_type payload
                   in if token_type \<noteq> Some ''access''
                      then Inl (HTTPException 401 ''Invalid token type''
                                  [(''WWW-Authenticate'', ''Bearer'')])
                      else (case TokenData_init None (Some token_scopes) None None None None None of
                              None \<Rightarrow> Inl credentials_exception
                            | Some token_data \<Rightarrow>
                                if \<exists>scope \<in> set security_scopes. scope \<notin> set (td_scopes token_data)
                                then Inl (HTTPException 403 ''Not enough permissions''
                                            [(''WWW-Authenticate'', authenticate_value)])
                                else Inr (user_id, td_scopes token_data)))))"

section \<open>Persisted rows (app/models)\<close>

text \<open>
  The three tables. A table is the list of its rows in the order in which a query
  without \<open>ORDER BY\<close> returns them. Of a user, the columns that the operations below
  read or write are kept (the names, the role and \<open>updated_at\<close> are not). The column
  \<open>created_at\<close> of a refresh token has no default: it is \<open>None\<close> unless the code
  that builds the row sets it. The primary keys come from one sequence per table,
  which is part of the state. The field \<open>commits\<close> counts the calls of \<open>commit()\<close>
  that succeeded so far.

  Two declared constraints decide what the operations below do. The column
  \<open>created_at\<close> of a refresh token is \<open>nullable=False\<close>, so the insert of a row
  without it is rejected. Both token tables refer to \<open>users.id\<close> by a foreign key
  without \<open>ondelete\<close>, and no cascade is declared, so the delete of a user that a
  token row refers to is rejected. A rejected statement raises \<open>IntegrityError\<close>, and
  its transaction leaves the tables as they were.
\<close>

record User =
  u_id :: int
  u_email :: string
  u_hashed_password :: string
  u_is_verified :: bool
  u_created_at :: datetime

record RefreshToken =
  rt_id :: int
  rt_user_id :: int
  rt_token :: jwt
  rt_created_at :: "datetime option"
  rt_expires_at :: datetime
  rt_revoked :: bool

record VerificationToken =
  vt_id :: int
  vt_user_id :: int
  vt_token :: string
  vt_token_type :: string
  vt_expires_at :: datetime
  vt_is_used :: bool
  vt_revoked :: bool

record db =
  users :: "User list"
  refresh_tokens :: "RefreshToken list"
  verification_tokens :: "VerificationToken list"
  users_seq :: int
  refresh_tokens_seq :: int
  verification_tokens_seq :: int
  commits :: nat

text \<open>\<open>.scalars().first()\<close>: the first row of the result, \<open>None\<close> when there is none.\<close>

fun first :: "'a list \<Rightarrow> 'a option" where
  "first [] = None"
| "first (x # xs) = Some x"

text \<open>\<open>db.get(User, id)\<close>: the row with that primary key.\<close>

definition db_get_User :: "db \<Rightarrow> int \<Rightarrow> User option" where
  "db_get_User s i = first (filter (\<lambda>u. u_id u = i) (users s))"

text \<open>
  \<open>db.add(row)\<close> followed by \<open>db.commit()\<close> for a new refresh token: the insert,
  rejected when \<open>created_at\<close> has no value.
\<close>

definition add_RefreshToken_commit :: "RefreshToken \<Rightarrow> db \<Rightarrow> raised + db" where
  "add_RefreshToken_commit row s =
     (if rt_created_at row = None then Inl IntegrityError
      else Inr (s\<lparr>refresh_tokens := refresh_tokens s @ [row],
             refresh_tokens_seq := refresh_tokens_seq s + 1,
             commits := commits s + 1\<rparr>))"

text \<open>A user that a row of one of the token tables refers to.\<close>

definition referenced :: "db \<Rightarrow> User \<Rightarrow> bool" where
  "referenced s user \<longleftrightarrow>
     (\<exists>t \<in> set (refresh_tokens s). rt_user_id t = u_id user) \<or>
     (\<exists>v \<in> set (verification_tokens s). vt_user_id v = u_id user)"

text \<open>Decimal digits of an integer, Python's \<open>str\<close>.\<close>

function str_nat :: "nat \<Rightarrow> string" where
  "str_nat n =
     (if n < 10 then [char_of (48 + n)] else str_nat (n div 10) @ [char_of (48 + n mod 10)])"
  by pat_completeness auto
termination
  by (relation "measure id") auto

definition str :: "int \<Rightarrow> string" where
  "str i = (if i < 0 then CHR ''-'' # str_nat (nat (- i)) else str_nat (nat i))"

section \<open>Authentication routes (app/api/v1/auth.py)\<close>

text \<open>
  A route takes the state of the database and returns its response, or the
  exception it raises, with the state it leaves behind. The password hasher
  (\<open>passlib\<close>) and the generator of unique identifiers (\<open>uuid4\<close>) are parameters:
  \<open>verify_password\<close> and \<open>get_password_hash\<close> are functions; the identifier drawn by
  one request is an argument. \<open>verify_password\<close> answers with a truth value for
  every stored hash. Sending the verification mail is outside the state.
\<close>

text \<open>The response model \<open>Token\<close>; its field \<open>refresh_token\<close> is \<open>refresh_token_field\<close> here.\<close>

record Token =
  access_token :: jwt
  refresh_token_field :: jwt
  token_type :: string

record UserCreate =
  uc_email :: string
  uc_password :: string

record LoginInput =
  li_email :: string
  li_password :: string

definition signup ::
  "(string \<Rightarrow> string) \<Rightarrow> string \<Rightarrow> datetime \<Rightarrow> UserCreate \<Rightarrow> db \<Rightarrow> (raised + string) \<times> db"
  where
  "signup get_password_hash uuid now user_in s =
     (case first (filter (\<lambda>u. u_email u = uc_email user_in) (users s)) of
        Some existing_user \<Rightarrow> (Inl (HTTPException 400 ''Email already registered'' []), s)
      | None \<Rightarrow>
          (let hashed_pw = get_password_hash (uc_password user_in);
               new_user = \<lparr>u_id = users_seq s, u_email = uc_email user_in,
                 u_hashed_password = hashed_pw, u_is_verified = False, u_created_at = now\<rparr>;
               token = uuid;
               expires = now + timedelta_minutes 15;
               v_token = \<lparr>vt_id = verification_tokens_seq s, vt_user_id = u_id new_user,
                 vt_token = token, vt_token_type = ''email_verification'',
                 vt_expires_at = expires, vt_is_used = False, vt_revoked = False\<rparr>
           in (Inr ''User registered successfully. Please check your email to verify your account.'',
               s\<lparr>users := users s @ [new_user], users_seq := users_seq s + 1,
                 verification_tokens := verification_tokens s @ [v_token],
                 verification_tokens_seq := verification_tokens_seq s + 1,
                 commits := commits s + 1\<rparr>)))"

definition login ::
  "Settings \<Rightarrow> (string \<Rightarrow> string \<Rightarrow> bool) \<Rightarrow> datetime \<Rightarrow> LoginInput \<Rightarrow> db \<Rightarrow>
   (raised + Token) \<times> db" where
  "login settings verify_password now credentials s =
     (let user = first (filter (\<lambda>u. u_email u = li_email credentials) (users s))
      in case user of
           None \<Rightarrow> (Inl (HTTPException 400 ''Incorrect email or password'' []), s)
         | Some user \<Rightarrow>
             if \<not> verify_password (li_password credentials) (u_hashed_password user)
             then (Inl (HTTPException 400 ''Incorrect email or password'' []), s)
             else if \<not> u_is_verified user
             then (Inl (HTTPException 400 ''Email not verified'' []), s)
             else
               (let access_token = create_access_token settings now
                      (no_claims\<lparr>c_sub := Some (str (u_id user))\<rparr>);
                    refresh_token = create_refresh_token settings now
                      (no_claims\<lparr>c_sub := Some (str (u_id user))\<rparr>);
                    expires_at = now + timedelta_days (REFRESH_TOKEN_EXPIRE_DAYS settings);
                    db_refresh_token = \<lparr>rt_id = refresh_tokens_seq s, rt_user_id = u_id user,
                      rt_token = refresh_token, rt_created_at = None,
                      rt_expires_at = expires_at, rt_revoked = False\<rparr>
                in case add_RefreshToken_commit db_refresh_token s of
                     Inl e \<Rightarrow> (Inl e, s)
                   | Inr s' \<Rightarrow>
                       (Inr \<lparr>access_token = access_token, refresh_token_field = refresh_token,
                              token_type = ''bearer''\<rparr>, s')))"

text \<open>
  \<open>refresh_token\<close>: both \<open>HTTPException\<close>s raised inside the \<open>try\<close> are caught by
  \<open>except Exception\<close> and replaced.
\<close>

definition refresh_token ::
  "Settings \<Rightarrow> datetime \<Rightarrow> jwt \<Rightarrow> db \<Rightarrow> (raised + Token) \<times> db" where
  "refresh_token settings now data_refresh_token s =
     (case (case verify_token settings now data_refresh_token of
              Inl e \<Rightarrow> Inl e
            | Inr payload \<Rightarrow>
                if c_type payload \<noteq> Some ''refresh''
                then Inl (HTTPException 400 ''Invalid token type'' [])
                else Inr payload) of
        Inl e \<Rightarrow> (Inl (HTTPException 400 ''Invalid refresh token'' []), s)
      | Inr payload \<Rightarrow>
          (case first (filter (\<lambda>t. rt_token t = data_refresh_token \<and> rt_revoked t = False \<and>
                          rt_expires_at t > now) (refresh_tokens s)) of
             None \<Rightarrow> (Inl (HTTPException 400 ''Invalid or expired refresh token'' []), s)
           | Some token \<Rightarrow>
               (let access_token = create_access_token settings now
                      (no_claims\<lparr>c_sub := Some (str (rt_user_id token))\<rparr>)
                in (Inr \<lparr>access_token = access_token, refresh_token_field = data_refresh_token,
                          token_type = ''bearer''\<rparr>, s))))"

text \<open>
  \<open>verify_email\<close>: the two assignments are written back by primary key at the commit.
  (\<open>revoked_at\<close> is no column of the table; the assignment to it is not stored.)
\<close>

definition verify_email :: "datetime \<Rightarrow> string \<Rightarrow> db \<Rightarrow> (raised + string) \<times> db" where
  "verify_email now data_token s =
     (case first (filter (\<lambda>v. vt_token v = data_token \<and>
                     vt_token_type v = ''email_verification'' \<and> vt_revoked v = False \<and>
                     vt_expires_at v > now) (verification_tokens s)) of
        None \<Rightarrow> (Inl (HTTPException 400 ''Invalid or expired verification token'' []), s)
      | Some token \<Rightarrow>
          (case db_get_User s (vt_user_id token) of
             None \<Rightarrow> (Inl (HTTPException 404 ''User not found'' []), s)
           | Some user \<Rightarrow>
               (Inr ''Email verified successfully'',
                s\<lparr>users := map (\<lambda>u. if u_id u = u_id user then u\<lparr>u_is_verified := True\<rparr> else u)
                              (users s),
                  verification_tokens :=
                    map (\<lambda>v. if vt_id v = vt_id token then v\<lparr>vt_revoked := True\<rparr> else v)
                      (verification_tokens s),
                  commits := commits s + 1\<rparr>)))"

section \<open>The service class (app/services/auth.py)\<close>

definition AuthService_authenticate_user ::
  "(string \<Rightarrow> string \<Rightarrow> bool) \<Rightarrow> string \<Rightarrow> string \<Rightarrow> db \<Rightarrow> User option" where
  "AuthService_authenticate_user verify_password email password s =
     (case first (filter (\<lambda>u. u_email u = email) (users s)) of
        None \<Rightarrow> None
      | Some user \<Rightarrow>
          if \<not> verify_password password (u_hashed_password user) then None else Some user)"


definition AuthService_verify_email :: "datetime \<Rightarrow> string \<Rightarrow> db \<Rightarrow> bool \<times> db" where
  "AuthService_verify_email now token s =
     (case first (filter (\<lambda>v. vt_token v = token \<and>
                     vt_token_type v = ''email_verification'' \<and> vt_revoked v = False \<and>
                     vt_expires_at v > now) (verification_tokens s)) of
        None \<Rightarrow> (False, s)
      | Some verification_token \<Rightarrow>
          (case db_get_User s (vt_user_id verification_token) of
             None \<Rightarrow> (False, s)
           | Some user \<Rightarrow>
               (True,
                s\<lparr>users := map (\<lambda>u. if u_id u = u_id user then u\<lparr>u_is_verified := True\<rparr> else u)
                              (users s),
                  verification_tokens :=
                    map (\<lambda>v. if vt_id v = vt_id verification_token
                              then v\<lparr>vt_revoked := True\<rparr> else v)
                      (verification_tokens s),
                  commits := commits s + 1\<rparr>)))"

definition AuthService_refresh_access_token ::
  "Settings \<Rightarrow> datetime \<Rightarrow> jwt \<Rightarrow> db \<Rightarrow> jwt option \<times> db" where
  "AuthService_refresh_access_token settings now refresh_token_str s =
     (case first (filter (\<lambda>t. rt_token t = refresh_token_str \<and> rt_revoked t = False \<and>
                     rt_expires_at t > now) (refresh_tokens s)) of
        None \<Rightarrow> (None, s)
      | Some token_record \<Rightarrow>
          (Some (create_access_token settings now
                   (no_claims\<lparr>c_sub := Some (str (rt_user_id token_record))\<rparr>)), s))"

section \<open>Retention tasks (app/tasks/cleanup.py)\<close>

text \<open>
  \<open>get_db\<close> (app/db/deps.py, not among the sources) is taken to open a session on
  the database. \<open>session.delete(row)\<close> removes the row with the primary key of
  \<open>row\<close> at the next commit. The tasks run alone on the database: no row is locked
  by another transaction, so \<open>with_for_update(skip_locked=True)\<close> skips nothing. No
  row refers to a token row, so the delete of a token is never rejected.
\<close>

definition session_delete_RefreshToken :: "RefreshToken \<Rightarrow> RefreshToken list \<Rightarrow> RefreshToken list"
  where
  "session_delete_RefreshToken token rows = filter (\<lambda>r. rt_id r \<noteq> rt_id token) rows"

definition session_delete_VerificationToken ::
  "VerificationToken \<Rightarrow> VerificationToken list \<Rightarrow> VerificationToken list" where
  "session_delete_VerificationToken token rows = filter (\<lambda>r. vt_id r \<noteq> vt_id token) rows"

record cleanup_result =
  cr_status :: string
  deleted_refresh_tokens :: nat
  deleted_verification_tokens :: nat

definition cleanup_expired_tokens :: "datetime \<Rightarrow> db \<Rightarrow> cleanup_result \<times> db" where
  "cleanup_expired_tokens now s =
     (let expired_refresh = filter (\<lambda>t. rt_expires_at t < now) (refresh_tokens s);
          expired_verification = filter (\<lambda>t. vt_expires_at t < now) (verification_tokens s);
          deleted_refresh = length expired_refresh;
          deleted_verification = length expired_verification
      in (\<lparr>cr_status = ''success'', deleted_refresh_tokens = deleted_refresh,
            deleted_verification_tokens = deleted_verification\<rparr>,
          s\<lparr>refresh_tokens := fold session_delete_RefreshToken expired_refresh (refresh_tokens s),
            verification_tokens :=
              fold session_delete_VerificationToken expired_verification (verification_tokens s),
            commits := commits s + 1\<rparr>))"

definition batch_size :: nat where
  "batch_size = 100"

definition stale :: "datetime \<Rightarrow> User \<Rightarrow> bool" where
  "stale cutoff_time u \<longleftrightarrow> u_is_verified u = False \<and> u_created_at u < cutoff_time"

definition select_batch :: "datetime \<Rightarrow> db \<Rightarrow> User list" where
  "select_batch cutoff_time s = take batch_size (filter (stale cutoff_time) (users s))"

text \<open>
  \<open>session.delete(user)\<close> for every user of a batch, followed by \<open>session.commit()\<close>:
  the users with the primary keys of the batch are removed. The commit is rejected
  when a user of the batch is referenced by a token row.
\<close>

definition delete_Users_commit :: "User list \<Rightarrow> db \<Rightarrow> raised + db" where
  "delete_Users_commit batch s =
     (if \<exists>user \<in> set batch. referenced s user then Inl IntegrityError
      else Inr (s\<lparr>users := filter (\<lambda>r. u_id r \<notin> u_id ` set batch) (users s),
             commits := commits s + 1\<rparr>))"

lemma batch_shrinks:
  assumes "select_batch c s \<noteq> []"
  shows "length (filter (stale c) (filter (\<lambda>r. u_id r \<notin> u_id ` set (select_batch c s)) (users s)))
         < length (filter (stale c) (users s))"
proof -
  obtain u rest where b: "select_batch c s = u # rest"
    using assms by (cases "select_batch c s") auto
  then have "u \<in> set (take batch_size (filter (stale c) (users s)))"
    by (simp add: select_batch_def)
  then have u: "u \<in> set (filter (stale c) (users s))"
    by (rule in_set_takeD)
  have "filter (stale c) (filter (\<lambda>r. u_id r \<notin> u_id ` set (select_batch c s)) (users s))
        = filter (\<lambda>r. u_id r \<notin> u_id ` set (select_batch c s)) (filter (stale c) (users s))"
    by (simp add: conj_commute)
  moreover have "\<not> (u_id u \<notin> u_id ` set (select_batch c s))"
    by (simp add: b)
  ultimately show ?thesis
    using u length_filter_less [of u "filter (stale c) (users s)"] by simp
qed

lemma batch_shrinks_commit:
  assumes "select_batch c s \<noteq> []" and "delete_Users_commit (select_batch c s) s = Inr s'"
  shows "length (filter (stale c) (users s')) < length (filter (stale c) (users s))"
proof -
  have "users s' = filter (\<lambda>r. u_id r \<notin> u_id ` set (select_batch c s)) (users s)"
    using assms(2) by (auto simp: delete_Users_commit_def split: if_splits)
  then show ?thesis
    using batch_shrinks [OF assms(1)] by simp
qed

text \<open>
  The \<open>while True\<close> loop of \<open>delete_unverified_users\<close>: one batch is selected, the
  loop ends when it is empty, otherwise every user of the batch is deleted and counted
  and the transaction is committed. When the commit is rejected the
  \<open>IntegrityError\<close> leaves the loop, the batch is rolled back and the batches
  committed before stay deleted.
\<close>

function delete_unverified_users_loop ::
  "datetime \<Rightarrow> nat \<Rightarrow> db \<Rightarrow> (raised + nat) \<times> db" where
  "delete_unverified_users_loop cutoff_time deleted_count s =
     (let batch = select_batch cutoff_time s
      in if batch = [] then (Inr deleted_count, s)
         else (case delete_Users_commit batch s of
                 Inl e \<Rightarrow> (Inl e, s)
               | Inr s' \<Rightarrow>
                   delete_unverified_users_loop cutoff_time (deleted_count + length batch) s'))"
  by pat_completeness auto
termination
  by (relation "measure (\<lambda>(c, d, s). length (filter (stale c) (users s)))")
     (auto simp: batch_shrinks_commit)

declare delete_unverified_users_loop.simps [simp del]

record delete_result =
  dr_status :: string
  deleted_count :: nat

text \<open>
  The task: the count on success; \<open>except Exception as e\<close> turns an exception of
  the loop into \<open>self.retry(exc=e, countdown=60 * 5)\<close>.
\<close>

definition delete_unverified_users ::
  "datetime \<Rightarrow> int \<Rightarrow> db \<Rightarrow> (raised + delete_result) \<times> db" where
  "delete_unverified_users now days_old s =
     (let cutoff_time = now - timedelta_days days_old
      in case delete_unverified_users_loop cutoff_time 0 s of
           (Inr n, s') \<Rightarrow> (Inr \<lparr>dr_status = ''success'', deleted_count = n\<rparr>, s')
         | (Inl e, s') \<Rightarrow> (Inl (Retry e), s'))"

section \<open>Histories of requests\<close>

text \<open>
  The operations that change or read the stored tokens, as requests that arrive one
  after the other, each at its own time. A signup carries the identifier that
  \<open>uuid4\<close> draws for it. \<open>run\<close> is the state after a list of requests.
\<close>

datatype request =
    Signup string UserCreate
  | Login LoginInput
  | Refresh jwt
  | VerifyEmail string
  | CleanupExpiredTokens
  | DeleteUnverifiedUsers int

fun handle ::
  "Settings \<Rightarrow> (string \<Rightarrow> string) \<Rightarrow> (string \<Rightarrow> string \<Rightarrow> bool) \<Rightarrow> datetime \<times> request \<Rightarrow> db \<Rightarrow> db"
  where
  "handle st get_password_hash verify_password (now, Signup uuid user_in) s =
     snd (signup get_password_hash uuid now user_in s)"
| "handle st get_password_hash verify_password (now, Login credentials) s =
     snd (login st verify_password now credentials s)"
| "handle st get_password_hash verify_password (now, Refresh r) s =
     snd (refresh_token st now r s)"
| "handle st get_password_hash verify_password (now, VerifyEmail t) s =
     snd (verify_email now t s)"
| "handle st get_password_hash verify_password (now, CleanupExpiredTokens) s =
     snd (cleanup_expired_tokens now s)"
| "handle st get_password_hash verify_password (now, DeleteUnverifiedUsers days_old) s =
     snd (delete_unverified_users now days_old s)"

definition run ::
  "Settings \<Rightarrow> (string \<Rightarrow> string) \<Rightarrow> (string \<Rightarrow> string \<Rightarrow> bool) \<Rightarrow> (datetime \<times> request) list \<Rightarrow>
   db \<Rightarrow> db" where
  "run st get_password_hash verify_password evs s =
     fold (handle st get_password_hash verify_password) evs s"

text \<open>Every stored verification token with the value \<open>t\<close> is revoked.\<close>

definition consumed :: "string \<Rightarrow> db \<Rightarrow> bool" where
  "consumed t s \<longleftrightarrow> (\<forall>v \<in> set (verification_tokens s). vt_token v = t \<longrightarrow> vt_revoked v)"


section \<open>Example data\<close>

text \<open>
  A database in the style of tests/test_tasks.py, ten days after the epoch: a
  verified user, an unverified user older than two days and a recent one; an expired
  and a live refresh token with made-up values and a live one that holds a signed
  refresh token of user 1; an expired verification token, a live one, and a live one
  whose user is gone.
\<close>

definition example_now :: datetime where
  "example_now = 864000000000"

definition example_hash :: "string \<Rightarrow> string" where
  "example_hash password = ''$'' @ password"

definition example_verify :: "string \<Rightarrow> string \<Rightarrow> bool" where
  "example_verify plain_password hashed_password \<longleftrightarrow> hashed_password = ''$'' @ plain_password"

definition example_db :: db where
  "example_db = \<lparr>
     users = [
       \<lparr>u_id = 1, u_email = ''verified@example.com'', u_hashed_password = ''$TestPassword123!'',
         u_is_verified = True, u_created_at = 604800000000\<rparr>,
       \<lparr>u_id = 2, u_email = ''old_unverified@example.com'',
         u_hashed_password = ''$TestPassword123!'', u_is_verified = False,
         u_created_at = 604800000000\<rparr>,
       \<lparr>u_id = 3, u_email = ''new_unverified@example.com'',
         u_hashed_password = ''$TestPassword123!'', u_is_verified = False,
         u_created_at = 781200000000\<rparr>],
     refresh_tokens = [
       \<lparr>rt_id = 1, rt_user_id = 1, rt_token = Malformed ''expired_refresh_token'',
         rt_created_at = Some 691200000000, rt_expires_at = 777600000000, rt_revoked = False\<rparr>,
       \<lparr>rt_id = 2, rt_user_id = 1, rt_token = Malformed ''valid_refresh_token'',
         rt_created_at = Some 864000000000, rt_expires_at = 950400000000, rt_revoked = False\<rparr>,
       \<lparr>rt_id = 3, rt_user_id = 1,
         rt_token = Signed \<lparr>c_sub = Some ''1'', c_exp = Some 1468800, c_iat = Some 864000,
             c_type = Some ''refresh'', c_iss = Some ''Coffee Shop API'', c_scopes = None\<rparr>
           ''test-jwt-secret-key-for-testing-only'' ''HS256'',
         rt_created_at = Some 864000000000, rt_expires_at = 1468800000000,
         rt_revoked = False\<rparr>],
     verification_tokens = [
       \<lparr>vt_id = 1, vt_user_id = 1, vt_token = ''expired_verification_token'',
         vt_token_type = ''email_verification'', vt_expires_at = 860400000000,
         vt_is_used = False, vt_revoked = False\<rparr>,
       \<lparr>vt_id = 2, vt_user_id = 3, vt_token = ''live_verification_token'',
         vt_token_type = ''email_verification'', vt_expires_at = 864900000000,
         vt_is_used = False, vt_revoked = False\<rparr>,
       \<lparr>vt_id = 3, vt_user_id = 99, vt_token = ''orphan_verification_token'',
         vt_token_type = ''email_verification'', vt_expires_at = 864900000000,
         vt_is_used = False, vt_revoked = False\<rparr>],
     users_seq = 4, refresh_tokens_seq = 4, verification_tokens_seq = 4, commits = 0\<rparr>"

text \<open>
  The empty database, and the database after one signup at the epoch (as the signup
  leaves it: an unverified user and the verification token that refers to it).
\<close>

definition empty_db :: db where
  "empty_db = \<lparr>users = [], refresh_tokens = [], verification_tokens = [],
     users_seq = 1, refresh_tokens_seq = 1, verification_tokens_seq = 1, commits = 0\<rparr>"

definition signed_up_db :: db where
  "signed_up_db = \<lparr>
     users = [
       \<lparr>u_id = 1, u_email = ''old_unverified@example.com'',
         u_hashed_password = ''$TestPassword123!'', u_is_verified = False, u_created_at = 0\<rparr>],
     refresh_tokens = [],
     verification_tokens = [
       \<lparr>vt_id = 1, vt_user_id = 1, vt_token = ''6f1c2a3e-0b7d-4c55-9e21-5d0a8b9c4f10'',
         vt_token_type = ''email_verification'', vt_expires_at = 900000000,
         vt_is_used = False, vt_revoked = False\<rparr>],
     users_seq = 2, refresh_tokens_seq = 1, verification_tokens_seq = 2, commits = 1\<rparr>"

text \<open>The settings of the test environment (tests/test_config.py).\<close>

definition test_settings :: Settings where
  "test_settings = \<lparr>JWT_SECRET_KEY = ''test-jwt-secret-key-for-testing-only'',
     JWT_REFRESH_SECRET_KEY = ''test-jwt-refresh-secret-key-for-testing-only'',
     JWT_ALGORITHM = ''HS256'', JWT_ISSUER = ''Coffee Shop API'',
     ACCESS_TOKEN_EXPIRE_MINUTES = 30, REFRESH_TOKEN_EXPIRE_DAYS = 7\<rparr>"

section \<open>Token issuing and verification\<close>

lemma create_token_signed:
  "\<exists>p. create_token st now d tt ed = Signed p (JWT_SECRET_KEY st) (JWT_ALGORITHM st) \<and>
        c_type p = Some (TokenType_value tt) \<and> c_sub p = c_sub d \<and> c_scopes p = c_scopes d"
  by (simp add: create_token_def jwt_encode_def Let_def)

lemma create_refresh_token_exp:
  "\<exists>p. create_refresh_token st now d = Signed p (JWT_SECRET_KEY st) (JWT_ALGORITHM st) \<and>
        c_type p = Some ''refresh'' \<and> c_sub p = c_sub d \<and>
        c_exp p = Some (timegm (now + timedelta_days (REFRESH_TOKEN_EXPIRE_DAYS st)))"
  by (simp add: create_refresh_token_def create_token_def jwt_encode_def Let_def
      timedelta_days_def)

text \<open>
  Claim C3. The access-token verifier \<open>get_current_user\<close> accepts no token whose
  \<open>type\<close> claim is not \<open>access\<close>: a token that does not decode to a claim set of type
  \<open>access\<close> never yields a user. In particular a refresh token issued by
  \<open>create_refresh_token\<close> for a subject never yields a user, and while it is unexpired
  the answer is the 401 error "Invalid token type".
\<close>

theorem get_current_user_rejects_other_types:
  "((\<forall>p. jwt_decode tok (JWT_SECRET_KEY st) [JWT_ALGORITHM st] now = Some p \<longrightarrow>
         c_type p \<noteq> Some ''access'') \<longrightarrow>
      (\<forall>r. get_current_user st now sc tok \<noteq> Inr r))
   \<and> (\<forall>r. get_current_user st now sc (create_refresh_token st now0 d) \<noteq> Inr r)
   \<and> (c_sub d \<noteq> None \<and>
        timegm now \<le> timegm (now0 + timedelta_days (REFRESH_TOKEN_EXPIRE_DAYS st)) \<longrightarrow>
      get_current_user st now sc (create_refresh_token st now0 d) =
        Inl (HTTPException 401 ''Invalid token type'' [(''WWW-Authenticate'', ''Bearer'')]))"
proof (intro conjI)
  show "(\<forall>p. jwt_decode tok (JWT_SECRET_KEY st) [JWT_ALGORITHM st] now = Some p \<longrightarrow>
           c_type p \<noteq> Some ''access'') \<longrightarrow>
        (\<forall>r. get_current_user st now sc tok \<noteq> Inr r)"
    by (auto simp: get_current_user_def Let_def split: option.splits)
next
  obtain p where p: "create_refresh_token st now0 d = Signed p (JWT_SECRET_KEY st) (JWT_ALGORITHM st)"
    and t: "c_type p = Some ''refresh''"
    using create_refresh_token_exp by blast
  show "\<forall>r. get_current_user st now sc (create_refresh_token st now0 d) \<noteq> Inr r"
    by (auto simp: p t get_current_user_def jwt_decode_def Let_def split: option.splits)
next
  obtain p where p: "create_refresh_token st now0 d = Signed p (JWT_SECRET_KEY st) (JWT_ALGORITHM st)"
    and t: "c_type p = Some ''refresh''" and sub: "c_sub p = c_sub d"
    and e: "c_exp p = Some (timegm (now0 + timedelta_days (REFRESH_TOKEN_EXPIRE_DAYS st)))"
    using create_refresh_token_exp by blast
  show "c_sub d \<noteq> None \<and>
          timegm now \<le> timegm (now0 + timedelta_days (REFRESH_TOKEN_EXPIRE_DAYS st)) \<longrightarrow>
        get_current_user st now sc (create_refresh_token st now0 d) =
          Inl (HTTPException 401 ''Invalid token type'' [(''WWW-Authenticate'', ''Bearer'')])"
    by (auto simp: p t sub e get_current_user_def jwt_decode_def Let_def split: option.splits)
qed

theorem get_current_user_rejects_other_types_witness:
  "(\<forall>r. get_current_user test_settings 1000000 []
         (Signed (no_claims\<lparr>c_sub := Some ''1'', c_type := Some ''refresh''\<rparr>)
            ''test-jwt-secret-key-for-testing-only'' ''HS256'') \<noteq> Inr r)
   \<and> get_current_user test_settings 1000000 []
        (create_refresh_token test_settings 0 (no_claims\<lparr>c_sub := Some ''1''\<rparr>)) =
      Inl (HTTPException 401 ''Invalid token type'' [(''WWW-Authenticate'', ''Bearer'')])"
proof -
  have h1: "\<forall>p. jwt_decode (Signed (no_claims\<lparr>c_sub := Some ''1'', c_type := Some ''refresh''\<rparr>)
                    ''test-jwt-secret-key-for-testing-only'' ''HS256'')
                  (JWT_SECRET_KEY test_settings)
                  [JWT_ALGORITHM test_settings] 1000000 = Some p \<longrightarrow> c_type p \<noteq> Some ''access''"
    by (simp add: jwt_decode_def test_settings_def no_claims_def)
  have h2: "c_sub (no_claims\<lparr>c_sub := Some ''1''\<rparr>) \<noteq> None \<and>
            timegm 1000000 \<le> timegm (0 + timedelta_days (REFRESH_TOKEN_EXPIRE_DAYS test_settings))"
    by (simp add: timegm_def timedelta_days_def test_settings_def)
  show ?thesis
    using get_current_user_rejects_other_types
      [of "Signed (no_claims\<lparr>c_sub := Some ''1'', c_type := Some ''refresh''\<rparr>)
             ''test-jwt-secret-key-for-testing-only'' ''HS256''" test_settings 1000000 "[]" 0
          "no_claims\<lparr>c_sub := Some ''1''\<rparr>"] h1 h2
    by blast
qed

text \<open>
  The verifier in fact returns for no token at all: \<open>TokenData\<close> is built without its
  required fields, and the \<open>ValidationError\<close> becomes the 401 error.
\<close>

lemma get_current_user_never_returns:
  "\<exists>d h. get_current_user st now sc tok = Inl (HTTPException 401 d h)"
  by (auto simp: get_current_user_def Let_def TokenData_init_def split: option.splits)

text \<open>
  Claim C4 asks that access and refresh tokens are signed under distinct keys, so
  that a refresh token does not verify under the access key. The code signs both
  kinds under \<open>JWT_SECRET_KEY\<close>: with the settings of the test environment, where the
  two configured keys differ, the refresh token issued for subject 1 does not decode
  under \<open>JWT_REFRESH_SECRET_KEY\<close> and decodes under the access key
  \<open>JWT_SECRET_KEY\<close>.
\<close>

theorem refresh_token_signed_under_access_key:
  "JWT_SECRET_KEY test_settings \<noteq> JWT_REFRESH_SECRET_KEY test_settings \<and>
   jwt_decode (create_refresh_token test_settings 0 (no_claims\<lparr>c_sub := Some ''1''\<rparr>))
     (JWT_REFRESH_SECRET_KEY test_settings) [JWT_ALGORITHM test_settings] 0 = None \<and>
   jwt_decode (create_refresh_token test_settings 0 (no_claims\<lparr>c_sub := Some ''1''\<rparr>))
     (JWT_SECRET_KEY test_settings) [JWT_ALGORITHM test_settings] 0 =
     Some \<lparr>c_sub = Some ''1'', c_exp = Some 604800, c_iat = Some 0, c_type = Some ''refresh'',
       c_iss = Some ''Coffee Shop API'', c_scopes = None\<rparr>"
  by (simp add: create_refresh_token_def create_token_def jwt_encode_def jwt_decode_def
      test_settings_def no_claims_def timedelta_days_def timegm_def Let_def)

theorem refresh_token_signed_under_access_key_witness:
  "jwt_decode (create_refresh_token test_settings 0 (no_claims\<lparr>c_sub := Some ''1''\<rparr>))
     (JWT_SECRET_KEY test_settings) [JWT_ALGORITHM test_settings] 0 \<noteq>
   jwt_decode (create_refresh_token test_settings 0 (no_claims\<lparr>c_sub := Some ''1''\<rparr>))
     (JWT_REFRESH_SECRET_KEY test_settings) [JWT_ALGORITHM test_settings] 0"
  using refresh_token_signed_under_access_key by simp

lemma both_token_kinds_share_the_key:
  "\<exists>p q. create_access_token st now d = Signed p (JWT_SECRET_KEY st) (JWT_ALGORITHM st) \<and>
         create_refresh_token st now d = Signed q (JWT_SECRET_KEY st) (JWT_ALGORITHM st)"
  by (simp add: create_access_token_def create_refresh_token_def create_token_def
      jwt_encode_def Let_def)

section \<open>Queries\<close>

lemma first_None: "first xs = None \<longleftrightarrow> xs = []"
  by (cases xs) auto

lemma first_filter_None: "first (filter P xs) = None \<longleftrightarrow> (\<forall>x \<in> set xs. \<not> P x)"
  by (simp add: first_None filter_empty_conv)

lemma first_filter_Some: "first (filter P xs) = Some x \<Longrightarrow> x \<in> set xs \<and> P x"
  by (induction xs) (auto split: if_splits)

section \<open>Login\<close>

text \<open>
  The row that \<open>login\<close> and \<open>create_tokens\<close> build has no \<open>created_at\<close>; its
  insert is rejected, so neither returns tokens and neither changes the database.
\<close>

lemma login_state: "snd (login st verify_password now c s) = s"
  by (auto simp: login_def add_RefreshToken_commit_def Let_def split: option.splits)

lemma login_never_returns: "fst (login st verify_password now c s) \<noteq> Inr resp"
  by (auto simp: login_def add_RefreshToken_commit_def Let_def split: option.splits)


text \<open>
  Claim C6. A login with an email that is not registered and a login with a
  registered email and a password that does not match fail with the same error, the
  400 "Incorrect email or password", and leave the same state; the service's
  \<open>authenticate_user\<close> returns \<open>None\<close> for both. The error "Email not verified" is
  raised exactly when the user exists, the password matches and \<open>is_verified\<close> is
  false.
\<close>

theorem login_failures_indistinguishable:
  "((\<forall>u \<in> set (users s). u_email u \<noteq> li_email c1) \<and>
    first (filter (\<lambda>u. u_email u = li_email c2) (users s)) = Some u2 \<and>
    \<not> verify_password (li_password c2) (u_hashed_password u2) \<longrightarrow>
      login st verify_password now c1 s =
        (Inl (HTTPException 400 ''Incorrect email or password'' []), s) \<and>
      login st verify_password now c2 s = login st verify_password now c1 s \<and>
      AuthService_authenticate_user verify_password (li_email c1) (li_password c1) s = None \<and>
      AuthService_authenticate_user verify_password (li_email c2) (li_password c2) s = None)
   \<and> (fst (login st verify_password now c s) = Inl (HTTPException 400 ''Email not verified'' [])
        \<longleftrightarrow> (\<exists>u. first (filter (\<lambda>u. u_email u = li_email c) (users s)) = Some u \<and>
                 verify_password (li_password c) (u_hashed_password u) \<and> \<not> u_is_verified u))"
proof (intro conjI impI)
  assume a: "(\<forall>u \<in> set (users s). u_email u \<noteq> li_email c1) \<and>
    first (filter (\<lambda>u. u_email u = li_email c2) (users s)) = Some u2 \<and>
    \<not> verify_password (li_password c2) (u_hashed_password u2)"
  then have n: "first (filter (\<lambda>u. u_email u = li_email c1) (users s)) = None"
    by (simp add: first_filter_None)
  show l1: "login st verify_password now c1 s =
        (Inl (HTTPException 400 ''Incorrect email or password'' []), s)"
    by (simp add: login_def n)
  show "login st verify_password now c2 s = login st verify_password now c1 s"
    using a by (simp add: l1) (simp add: login_def)
  show "AuthService_authenticate_user verify_password (li_email c1) (li_password c1) s = None"
    by (simp add: AuthService_authenticate_user_def n)
  show "AuthService_authenticate_user verify_password (li_email c2) (li_password c2) s = None"
    using a by (simp add: AuthService_authenticate_user_def)
next
  show "fst (login st verify_password now c s) = Inl (HTTPException 400 ''Email not verified'' [])
        \<longleftrightarrow> (\<exists>u. first (filter (\<lambda>u. u_email u = li_email c) (users s)) = Some u \<and>
                 verify_password (li_password c) (u_hashed_password u) \<and> \<not> u_is_verified u)"
    by (auto simp: login_def add_RefreshToken_commit_def Let_def split: option.splits)
qed

theorem login_failures_indistinguishable_witness:
  "login test_settings example_verify example_now
     \<lparr>li_email = ''nonexistent@example.com'', li_password = ''somepassword''\<rparr> example_db =
     (Inl (HTTPException 400 ''Incorrect email or password'' []), example_db) \<and>
   login test_settings example_verify example_now
     \<lparr>li_email = ''verified@example.com'', li_password = ''wrongpassword''\<rparr> example_db =
   login test_settings example_verify example_now
     \<lparr>li_email = ''nonexistent@example.com'', li_password = ''somepassword''\<rparr> example_db \<and>
   fst (login test_settings example_verify example_now
     \<lparr>li_email = ''new_unverified@example.com'', li_password = ''TestPassword123!''\<rparr> example_db) =
     Inl (HTTPException 400 ''Email not verified'' [])"
proof -
  let ?c1 = "\<lparr>li_email = ''nonexistent@example.com'', li_password = ''somepassword''\<rparr>"
  let ?c2 = "\<lparr>li_email = ''verified@example.com'', li_password = ''wrongpassword''\<rparr>"
  let ?c = "\<lparr>li_email = ''new_unverified@example.com'', li_password = ''TestPassword123!''\<rparr>"
  let ?u2 = "\<lparr>u_id = 1, u_email = ''verified@example.com'',
    u_hashed_password = ''$TestPassword123!'', u_is_verified = True,
    u_created_at = 604800000000\<rparr>"
  let ?u = "\<lparr>u_id = 3, u_email = ''new_unverified@example.com'',
    u_hashed_password = ''$TestPassword123!'', u_is_verified = False,
    u_created_at = 781200000000\<rparr>"
  have h1: "(\<forall>u \<in> set (users example_db). u_email u \<noteq> li_email ?c1) \<and>
    first (filter (\<lambda>u. u_email u = li_email ?c2) (users example_db)) = Some ?u2 \<and>
    \<not> example_verify (li_password ?c2) (u_hashed_password ?u2)"
    by (simp add: example_db_def example_verify_def)
  have h2: "\<exists>u. first (filter (\<lambda>u. u_email u = li_email ?c) (users example_db)) = Some u \<and>
    example_verify (li_password ?c) (u_hashed_password u) \<and> \<not> u_is_verified u"
    by (rule exI [of _ ?u]) (simp add: example_db_def example_verify_def)
  show ?thesis
    using login_failures_indistinguishable
      [of example_db ?c1 ?c2 ?u2 example_verify test_settings example_now ?c] h1 h2
    by blast
qed

section \<open>Email verification\<close>

text \<open>
  Claim C10. When a verification token matches the presented value (right kind, not
  revoked, not expired) and no user row has the token's \<open>user_id\<close>, the route
  raises the 404 error "User not found" (not the 400 error of an invalid or expired
  token), the service method returns \<open>False\<close>, and both leave the database as it was.
\<close>

theorem verify_email_user_missing:
  assumes "first (filter (\<lambda>v. vt_token v = t \<and> vt_token_type v = ''email_verification'' \<and>
                     vt_revoked v = False \<and> vt_expires_at v > now) (verification_tokens s)) = Some v"
    and "db_get_User s (vt_user_id v) = None"
  shows "verify_email now t s = (Inl (HTTPException 404 ''User not found'' []), s) \<and>
         AuthService_verify_email now t s = (False, s) \<and>
         fst (verify_email now t s) \<noteq>
           Inl (HTTPException 400 ''Invalid or expired verification token'' [])"
  using assms by (simp add: verify_email_def AuthService_verify_email_def)

theorem verify_email_user_missing_witness:
  "verify_email example_now ''orphan_verification_token'' example_db =
     (Inl (HTTPException 404 ''User not found'' []), example_db) \<and>
   AuthService_verify_email example_now ''orphan_verification_token'' example_db =
     (False, example_db)"
proof -
  let ?v = "\<lparr>vt_id = 3, vt_user_id = 99, vt_token = ''orphan_verification_token'',
         vt_token_type = ''email_verification'', vt_expires_at = 864900000000,
         vt_is_used = False, vt_revoked = False\<rparr>"
  have h1: "first (filter (\<lambda>v. vt_token v = ''orphan_verification_token'' \<and>
              vt_token_type v = ''email_verification'' \<and> vt_revoked v = False \<and>
              vt_expires_at v > example_now) (verification_tokens example_db)) = Some ?v"
    by (simp add: example_db_def example_now_def)
  have h2: "db_get_User example_db (vt_user_id ?v) = None"
    by (simp add: db_get_User_def example_db_def)
  show ?thesis
    using verify_email_user_missing [OF h1 h2] by simp
qed


section \<open>Refreshing\<close>

lemma str_one: "str 1 = ''1''"
  by code_simp

lemma refresh_token_frame: "snd (refresh_token st now r s) = s"
  by (auto simp: refresh_token_def Let_def split: option.splits sum.splits)

text \<open>
  The route issues an access token exactly when the presented token decodes under
  the signing key to a claim set of type \<open>refresh\<close> and a stored row with this value
  is not revoked and not expired; otherwise it raises one of its two 400 errors.
\<close>

lemma refresh_token_checks_both:
  "(\<exists>resp. refresh_token st now r s = (Inr resp, s)) \<longleftrightarrow>
     ((\<exists>p. jwt_decode r (JWT_SECRET_KEY st) [JWT_ALGORITHM st] now = Some p \<and>
           c_type p = Some ''refresh'') \<and>
      (\<exists>t \<in> set (refresh_tokens s). rt_token t = r \<and> \<not> rt_revoked t \<and> now < rt_expires_at t))"
  by (auto simp: refresh_token_def verify_token_def first_filter_None Let_def
      split: option.splits sum.splits dest: first_filter_Some)

lemma refresh_token_failure:
  "\<not> ((\<exists>p. jwt_decode r (JWT_SECRET_KEY st) [JWT_ALGORITHM st] now = Some p \<and>
           c_type p = Some ''refresh'') \<and>
      (\<exists>t \<in> set (refresh_tokens s). rt_token t = r \<and> \<not> rt_revoked t \<and> now < rt_expires_at t)) \<Longrightarrow>
   refresh_token st now r s = (Inl (HTTPException 400 ''Invalid refresh token'' []), s) \<or>
   refresh_token st now r s = (Inl (HTTPException 400 ''Invalid or expired refresh token'' []), s)"
  by (auto simp: refresh_token_def verify_token_def first_filter_None Let_def
      split: option.splits sum.splits dest: first_filter_Some)

text \<open>
  Claim C2 asks that every refresh operation issues an access token only if the
  token's signed claims verify and a matching stored row is live. The route
  \<open>refresh_token\<close> does both checks (\<open>refresh_token_checks_both\<close>); the service
  method \<open>AuthService.refresh_access_token\<close> only looks the row up. For the live row
  with the value \<open>valid_refresh_token\<close>, which is no signed token, the route raises
  the 400 error and the service method returns an access token for user 1.
\<close>

theorem refresh_access_token_skips_signature:
  "verify_token test_settings example_now (Malformed ''valid_refresh_token'') =
     Inl (HTTPException 400 ''Invalid token'' []) \<and>
   refresh_token test_settings example_now (Malformed ''valid_refresh_token'') example_db =
     (Inl (HTTPException 400 ''Invalid refresh token'' []), example_db) \<and>
   AuthService_refresh_access_token test_settings example_now
       (Malformed ''valid_refresh_token'') example_db =
     (Some (Signed \<lparr>c_sub = Some ''1'', c_exp = Some 865800, c_iat = Some 864000,
              c_type = Some ''access'', c_iss = Some ''Coffee Shop API'', c_scopes = None\<rparr>
            ''test-jwt-secret-key-for-testing-only'' ''HS256''), example_db)"
proof (intro conjI)
  show v: "verify_token test_settings example_now (Malformed ''valid_refresh_token'') =
     Inl (HTTPException 400 ''Invalid token'' [])"
    by (simp add: verify_token_def jwt_decode_def)
  show "refresh_token test_settings example_now (Malformed ''valid_refresh_token'') example_db =
     (Inl (HTTPException 400 ''Invalid refresh token'' []), example_db)"
    by (simp add: refresh_token_def v)
  have s: "str 1 = ''1''"
    by (rule str_one)
  show "AuthService_refresh_access_token test_settings example_now
       (Malformed ''valid_refresh_token'') example_db =
     (Some (Signed \<lparr>c_sub = Some ''1'', c_exp = Some 865800, c_iat = Some 864000,
              c_type = Some ''access'', c_iss = Some ''Coffee Shop API'', c_scopes = None\<rparr>
            ''test-jwt-secret-key-for-testing-only'' ''HS256''), example_db)"
    by (simp add: AuthService_refresh_access_token_def example_db_def example_now_def s
        create_access_token_def create_token_def jwt_encode_def test_settings_def no_claims_def
        timedelta_minutes_def timegm_def Let_def)
qed

theorem refresh_access_token_skips_signature_witness:
  "fst (AuthService_refresh_access_token test_settings example_now
       (Malformed ''valid_refresh_token'') example_db) \<noteq> None \<and>
   (\<forall>resp. fst (refresh_token test_settings example_now (Malformed ''valid_refresh_token'')
       example_db) \<noteq> Inr resp)"
  using refresh_access_token_skips_signature by simp

text \<open>
  Claim C5. A successful refresh leaves the database as it was (the row of the
  refresh token keeps its value, its revoked flag and its expiry), the response
  carries the presented refresh token itself, and the same token refreshes again at
  any time before the expiry of its row at which its signed expiry has not passed.
  The service method does not change the database either.
\<close>

theorem refresh_does_not_rotate:
  assumes "refresh_token st now r s = (Inr resp, s')"
  shows "s' = s \<and> refresh_token_field resp = r \<and>
     snd (AuthService_refresh_access_token st now r s) = s \<and>
     (\<exists>t \<in> set (refresh_tokens s'). rt_token t = r \<and> \<not> rt_revoked t \<and> now < rt_expires_at t \<and>
        (\<forall>now2. now2 < rt_expires_at t \<and>
                jwt_decode r (JWT_SECRET_KEY st) [JWT_ALGORITHM st] now2 \<noteq> None
           \<longrightarrow> (\<exists>resp2. refresh_token st now2 r s' = (Inr resp2, s') \<and>
                        refresh_token_field resp2 = r)))"
proof -
  have s: "s' = s" using assms refresh_token_frame [of st now r s] by simp
  have "\<exists>resp. refresh_token st now r s = (Inr resp, s)" using assms s by auto
  then obtain p t where p: "jwt_decode r (JWT_SECRET_KEY st) [JWT_ALGORITHM st] now = Some p"
      "c_type p = Some ''refresh''"
    and t: "t \<in> set (refresh_tokens s)" "rt_token t = r" "\<not> rt_revoked t" "now < rt_expires_at t"
    unfolding refresh_token_checks_both by blast
  have ty: "c_type q = Some ''refresh''"
    if "jwt_decode r (JWT_SECRET_KEY st) [JWT_ALGORITHM st] now2 = Some q" for now2 q
    using that p by (auto simp: jwt_decode_def split: jwt.splits option.splits if_splits)
  have later: "\<exists>resp2. refresh_token st now2 r s = (Inr resp2, s) \<and> refresh_token_field resp2 = r"
    if a: "now2 < rt_expires_at t"
      and b: "jwt_decode r (JWT_SECRET_KEY st) [JWT_ALGORITHM st] now2 \<noteq> None"
    for now2
  proof -
    obtain q where q: "jwt_decode r (JWT_SECRET_KEY st) [JWT_ALGORITHM st] now2 = Some q"
      using b by auto
    have "\<exists>resp. refresh_token st now2 r s = (Inr resp, s)"
      unfolding refresh_token_checks_both using q ty [OF q] t a by blast
    then obtain resp2 where r2: "refresh_token st now2 r s = (Inr resp2, s)" by blast
    then have "refresh_token_field resp2 = r"
      by (auto simp: refresh_token_def Let_def split: option.splits sum.splits if_splits)
    with r2 show ?thesis by blast
  qed
  have f: "refresh_token_field resp = r"
    using assms by (auto simp: refresh_token_def Let_def split: option.splits sum.splits if_splits)
  have sv: "snd (AuthService_refresh_access_token st now r s) = s"
    by (simp add: AuthService_refresh_access_token_def split: option.splits)
  show ?thesis
    unfolding s using f sv t later by blast
qed

theorem refresh_does_not_rotate_witness:
  "refresh_token_field
     \<lparr>access_token = Signed \<lparr>c_sub = Some ''1'', c_exp = Some 865800, c_iat = Some 864000,
          c_type = Some ''access'', c_iss = Some ''Coffee Shop API'', c_scopes = None\<rparr>
        ''test-jwt-secret-key-for-testing-only'' ''HS256'',
      refresh_token_field = Signed \<lparr>c_sub = Some ''1'', c_exp = Some 1468800,
          c_iat = Some 864000, c_type = Some ''refresh'', c_iss = Some ''Coffee Shop API'',
          c_scopes = None\<rparr> ''test-jwt-secret-key-for-testing-only'' ''HS256'',
      token_type = ''bearer''\<rparr> =
     Signed \<lparr>c_sub = Some ''1'', c_exp = Some 1468800, c_iat = Some 864000,
          c_type = Some ''refresh'', c_iss = Some ''Coffee Shop API'', c_scopes = None\<rparr>
        ''test-jwt-secret-key-for-testing-only'' ''HS256'' \<and>
   (\<exists>t \<in> set (refresh_tokens example_db).
      rt_token t = Signed \<lparr>c_sub = Some ''1'', c_exp = Some 1468800, c_iat = Some 864000,
          c_type = Some ''refresh'', c_iss = Some ''Coffee Shop API'', c_scopes = None\<rparr>
        ''test-jwt-secret-key-for-testing-only'' ''HS256'' \<and>
      \<not> rt_revoked t \<and> example_now < rt_expires_at t \<and>
      (\<forall>now2. now2 < rt_expires_at t \<and>
          jwt_decode (Signed \<lparr>c_sub = Some ''1'', c_exp = Some 1468800, c_iat = Some 864000,
                c_type = Some ''refresh'', c_iss = Some ''Coffee Shop API'', c_scopes = None\<rparr>
              ''test-jwt-secret-key-for-testing-only'' ''HS256'')
            (JWT_SECRET_KEY test_settings) [JWT_ALGORITHM test_settings] now2 \<noteq> None \<longrightarrow>
          (\<exists>resp2. refresh_token test_settings now2
              (Signed \<lparr>c_sub = Some ''1'', c_exp = Some 1468800, c_iat = Some 864000,
                c_type = Some ''refresh'', c_iss = Some ''Coffee Shop API'', c_scopes = None\<rparr>
              ''test-jwt-secret-key-for-testing-only'' ''HS256'') example_db =
              (Inr resp2, example_db) \<and>
            refresh_token_field resp2 =
              Signed \<lparr>c_sub = Some ''1'', c_exp = Some 1468800, c_iat = Some 864000,
                c_type = Some ''refresh'', c_iss = Some ''Coffee Shop API'', c_scopes = None\<rparr>
              ''test-jwt-secret-key-for-testing-only'' ''HS256'')))"
proof -
  let ?r = "Signed \<lparr>c_sub = Some ''1'', c_exp = Some 1468800, c_iat = Some 864000,
          c_type = Some ''refresh'', c_iss = Some ''Coffee Shop API'', c_scopes = None\<rparr>
        ''test-jwt-secret-key-for-testing-only'' ''HS256''"
  let ?resp = "\<lparr>access_token = Signed \<lparr>c_sub = Some ''1'', c_exp = Some 865800,
          c_iat = Some 864000, c_type = Some ''access'', c_iss = Some ''Coffee Shop API'',
          c_scopes = None\<rparr> ''test-jwt-secret-key-for-testing-only'' ''HS256'',
      refresh_token_field = ?r, token_type = ''bearer''\<rparr>"
  have s: "str 1 = ''1''"
    by (rule str_one)
  have v: "verify_token test_settings example_now ?r =
      Inr \<lparr>c_sub = Some ''1'', c_exp = Some 1468800, c_iat = Some 864000,
          c_type = Some ''refresh'', c_iss = Some ''Coffee Shop API'', c_scopes = None\<rparr>"
    by (simp add: verify_token_def jwt_decode_def test_settings_def example_now_def timegm_def)
  have h: "refresh_token test_settings example_now ?r example_db = (Inr ?resp, example_db)"
    unfolding refresh_token_def v
    by (simp add: example_db_def example_now_def s
        create_access_token_def create_token_def jwt_encode_def test_settings_def no_claims_def
        timedelta_minutes_def timegm_def Let_def)
  show ?thesis
    using refresh_does_not_rotate [OF h] by blast
qed

section \<open>Retention\<close>

lemma fold_session_delete_RefreshToken:
  "fold session_delete_RefreshToken batch rows = filter (\<lambda>r. rt_id r \<notin> rt_id ` set batch) rows"
  by (induction batch arbitrary: rows)
     (auto simp: session_delete_RefreshToken_def intro: filter_cong)

lemma fold_session_delete_VerificationToken:
  "fold session_delete_VerificationToken batch rows =
   filter (\<lambda>r. vt_id r \<notin> vt_id ` set batch) rows"
  by (induction batch arbitrary: rows)
     (auto simp: session_delete_VerificationToken_def intro: filter_cong)

text \<open>With unique keys, deleting the selected rows by key leaves the rows not selected.\<close>

lemma delete_selected_by_key:
  assumes "distinct (map key rows)"
  shows "filter (\<lambda>r. key r \<notin> key ` set (filter P rows)) rows = filter (\<lambda>r. \<not> P r) rows"
proof (rule filter_cong [OF refl])
  fix r assume r: "r \<in> set rows"
  have "inj_on key (set rows)" using assms by (simp add: distinct_map)
  then have "key r \<in> key ` set (filter P rows) \<longleftrightarrow> P r"
    using r by (auto dest: inj_onD)
  then show "(key r \<notin> key ` set (filter P rows)) = (\<not> P r)" by simp
qed

text \<open>
  Claim C7. On a database whose primary keys are unique, \<open>cleanup_expired_tokens\<close>
  removes exactly the refresh tokens and the verification tokens with
  \<open>expires_at < now\<close>, leaves every other row and the users as they were, commits
  once, and returns the number of removed rows of each kind.
\<close>

theorem cleanup_expired_tokens_exact:
  assumes "distinct (map rt_id (refresh_tokens s))"
    and "distinct (map vt_id (verification_tokens s))"
  shows "cleanup_expired_tokens now s =
     (\<lparr>cr_status = ''success'',
        deleted_refresh_tokens = length (filter (\<lambda>t. rt_expires_at t < now) (refresh_tokens s)),
        deleted_verification_tokens =
          length (filter (\<lambda>t. vt_expires_at t < now) (verification_tokens s))\<rparr>,
      s\<lparr>refresh_tokens := filter (\<lambda>t. \<not> rt_expires_at t < now) (refresh_tokens s),
        verification_tokens := filter (\<lambda>t. \<not> vt_expires_at t < now) (verification_tokens s),
        commits := commits s + 1\<rparr>)"
proof -
  have r: "fold session_delete_RefreshToken (filter (\<lambda>t. rt_expires_at t < now) (refresh_tokens s))
             (refresh_tokens s) = filter (\<lambda>t. \<not> rt_expires_at t < now) (refresh_tokens s)"
    unfolding fold_session_delete_RefreshToken using assms(1) by (rule delete_selected_by_key)
  have v: "fold session_delete_VerificationToken
             (filter (\<lambda>t. vt_expires_at t < now) (verification_tokens s)) (verification_tokens s)
           = filter (\<lambda>t. \<not> vt_expires_at t < now) (verification_tokens s)"
    unfolding fold_session_delete_VerificationToken using assms(2) by (rule delete_selected_by_key)
  show ?thesis
    unfolding cleanup_expired_tokens_def Let_def r v by simp
qed

theorem cleanup_expired_tokens_exact_witness:
  "deleted_refresh_tokens (fst (cleanup_expired_tokens example_now example_db)) = 1 \<and>
   deleted_verification_tokens (fst (cleanup_expired_tokens example_now example_db)) = 1 \<and>
   map rt_id (refresh_tokens (snd (cleanup_expired_tokens example_now example_db))) = [2, 3] \<and>
   map vt_id (verification_tokens (snd (cleanup_expired_tokens example_now example_db))) = [2, 3] \<and>
   users (snd (cleanup_expired_tokens example_now example_db)) = users example_db \<and>
   commits (snd (cleanup_expired_tokens example_now example_db)) = commits example_db + 1"
proof -
  have h1: "distinct (map rt_id (refresh_tokens example_db))"
    by (simp add: example_db_def)
  have h2: "distinct (map vt_id (verification_tokens example_db))"
    by (simp add: example_db_def)
  show ?thesis
    unfolding cleanup_expired_tokens_exact [OF h1 h2, of example_now]
    by (simp add: example_db_def example_now_def)
qed

lemma remove_taken:
  "distinct xs \<Longrightarrow> filter (\<lambda>r. r \<notin> set (take k xs)) xs = drop k xs"
proof (induction xs arbitrary: k)
  case Nil
  then show ?case by simp
next
  case (Cons x xs)
  show ?case
  proof (cases k)
    case 0
    then show ?thesis by simp
  next
    case (Suc j)
    have "filter (\<lambda>r. r \<noteq> x \<and> r \<notin> set (take j xs)) xs = filter (\<lambda>r. r \<notin> set (take j xs)) xs"
      using Cons.prems by (intro filter_cong) auto
    then show ?thesis using Cons Suc by simp
  qed
qed

text \<open>After one batch the stale users that remain are those behind the batch.\<close>

lemma stale_after_batch:
  assumes "distinct (map u_id (users s))"
  shows "filter (stale c) (filter (\<lambda>r. u_id r \<notin> u_id ` set (select_batch c s)) (users s))
         = drop batch_size (filter (stale c) (users s))"
proof -
  let ?F = "filter (stale c) (users s)"
  have inj: "inj_on u_id (set (users s))" and d: "distinct (users s)"
    using assms by (auto simp: distinct_map)
  have "filter (stale c) (filter (\<lambda>r. u_id r \<notin> u_id ` set (select_batch c s)) (users s))
        = filter (\<lambda>r. u_id r \<notin> u_id ` set (take batch_size ?F)) ?F"
    by (simp add: select_batch_def conj_commute)
  also have "\<dots> = filter (\<lambda>r. r \<notin> set (take batch_size ?F)) ?F"
  proof (rule filter_cong [OF refl])
    fix r assume "r \<in> set ?F"
    then have r: "r \<in> set (users s)" by simp
    have sub: "set (take batch_size ?F) \<subseteq> set (users s)"
      using set_take_subset [of batch_size ?F] by auto
    show "(u_id r \<notin> u_id ` set (take batch_size ?F)) = (r \<notin> set (take batch_size ?F))"
      using inj r sub by (auto dest: inj_onD)
  qed
  also have "\<dots> = drop batch_size ?F"
    by (rule remove_taken) (simp add: d)
  finally show ?thesis .
qed

lemma fresh_after_batch:
  assumes "distinct (map u_id (users s))"
  shows "filter (\<lambda>u. \<not> stale c u) (filter (\<lambda>r. u_id r \<notin> u_id ` set (select_batch c s)) (users s))
   = filter (\<lambda>u. \<not> stale c u) (users s)"
proof -
  have inj: "inj_on u_id (set (users s))"
    using assms by (simp add: distinct_map)
  have sub: "set (select_batch c s) \<subseteq> set (filter (stale c) (users s))"
    unfolding select_batch_def by (rule set_take_subset)
  show ?thesis
    unfolding filter_filter
  proof (rule filter_cong [OF refl])
    fix r assume r: "r \<in> set (users s)"
    have "stale c r" if "u_id r \<in> u_id ` set (select_batch c s)"
    proof -
      from that obtain b where b: "b \<in> set (select_batch c s)" "u_id r = u_id b" by auto
      with sub have "b \<in> set (users s)" "stale c b" by auto
      with inj r b(2) show ?thesis by (auto dest: inj_onD)
    qed
    then show "(u_id r \<notin> u_id ` set (select_batch c s) \<and> \<not> stale c r) = (\<not> stale c r)"
      by blast
  qed
qed

lemma commits_per_batch:
  "0 < (L::nat) \<Longrightarrow> 1 + (L - 100 + 99) div 100 = (L + 99) div 100"
proof (cases "L < 100")
  case True
  assume "0 < L"
  with True have "(L + 99) div 100 = 1" by (intro div_nat_eqI) auto
  with True show ?thesis by simp
next
  case False
  then obtain k where "L = k + 100" by (metis le_add_diff_inverse2 not_less)
  then show ?thesis by simp
qed

text \<open>
  When no stale user is referenced by a token row and the user keys are unique, the
  loop deletes exactly the stale users, counts them, and commits once for each
  hundred, or rest of a hundred, of them.
\<close>

lemma delete_unverified_users_loop_result:
  "distinct (map u_id (users s)) \<Longrightarrow>
   \<forall>u \<in> set (users s). stale c u \<longrightarrow> \<not> referenced s u \<Longrightarrow>
   delete_unverified_users_loop c d s =
     (Inr (d + length (filter (stale c) (users s))),
      s\<lparr>users := filter (\<lambda>u. \<not> stale c u) (users s),
        commits := commits s + (length (filter (stale c) (users s)) + 99) div 100\<rparr>)"
proof (induction c d s rule: delete_unverified_users_loop.induct)
  case (1 c d s)
  let ?F = "filter (stale c) (users s)"
  show ?case
  proof (cases "select_batch c s = []")
    case True
    then have e: "?F = []" by (simp add: select_batch_def batch_size_def)
    then have "filter (\<lambda>u. \<not> stale c u) (users s) = users s"
      by (simp add: filter_empty_conv)
    with True e show ?thesis
      by (subst delete_unverified_users_loop.simps) (simp add: Let_def)
  next
    case False
    let ?s1 = "s\<lparr>users := filter (\<lambda>r. u_id r \<notin> u_id ` set (select_batch c s)) (users s),
                 commits := commits s + 1\<rparr>"
    have dc: "delete_Users_commit (select_batch c s) s = Inr ?s1" if
      "\<not> (\<exists>user \<in> set (select_batch c s). referenced s user)"
      using that by (simp add: delete_Users_commit_def)
    have sub: "set (select_batch c s) \<subseteq> set ?F"
      unfolding select_batch_def by (rule set_take_subset)
    have nr: "\<not> (\<exists>user \<in> set (select_batch c s). referenced s user)"
      using sub "1.prems"(2) by auto
    have d1: "distinct (map u_id (users ?s1))"
      using "1.prems"(1) by (simp add: distinct_map_filter)
    have r1: "\<forall>u \<in> set (users ?s1). stale c u \<longrightarrow> \<not> referenced ?s1 u"
      using "1.prems"(2) by (simp add: referenced_def)
    have st: "filter (stale c) (users ?s1) = drop batch_size ?F"
      using stale_after_batch [OF "1.prems"(1)] by simp
    have fr: "filter (\<lambda>u. \<not> stale c u) (users ?s1) = filter (\<lambda>u. \<not> stale c u) (users s)"
      using fresh_after_batch [OF "1.prems"(1)] by simp
    have len: "length (select_batch c s) = min batch_size (length ?F)"
      by (simp add: select_batch_def min.commute)
    have pos: "0 < length ?F" using False by (auto simp: select_batch_def)
    have ih: "delete_unverified_users_loop c (d + length (select_batch c s)) ?s1 =
       (Inr (d + length (select_batch c s) + length (filter (stale c) (users ?s1))),
        ?s1\<lparr>users := filter (\<lambda>u. \<not> stale c u) (users ?s1),
          commits := commits ?s1 + (length (filter (stale c) (users ?s1)) + 99) div 100\<rparr>)"
      using "1.IH" [OF refl False dc [OF nr] d1 r1] .
    have cnt: "min batch_size (length ?F) + (length ?F - batch_size) = length ?F"
      by arith
    have cm: "1 + (length ?F - batch_size + 99) div 100 = (length ?F + 99) div 100"
      unfolding batch_size_def using pos by (rule commits_per_batch)
    have "delete_unverified_users_loop c d s =
          delete_unverified_users_loop c (d + length (select_batch c s)) ?s1"
      using False dc [OF nr] by (subst delete_unverified_users_loop.simps) (simp add: Let_def)
    also have "\<dots> = (Inr (d + length ?F),
      s\<lparr>users := filter (\<lambda>u. \<not> stale c u) (users s),
        commits := commits s + (length ?F + 99) div 100\<rparr>)"
    proof -
      have a: "d + length (select_batch c s) + length (drop batch_size ?F) = d + length ?F"
        unfolding len using cnt by simp
      have b: "commits ?s1 + (length (drop batch_size ?F) + 99) div 100
               = commits s + (length ?F + 99) div 100"
        using cm by simp
      show ?thesis
        unfolding ih st fr a b by simp
    qed
    finally show ?thesis .
  qed
qed

lemma delete_unverified_users_unreferenced:
  assumes "distinct (map u_id (users s))"
    and "\<forall>u \<in> set (users s). u_is_verified u = False \<and>
           u_created_at u < now - timedelta_days days_old \<longrightarrow> \<not> referenced s u"
  shows "delete_unverified_users now days_old s =
     (Inr \<lparr>dr_status = ''success'',
        deleted_count = length (filter (\<lambda>u. u_is_verified u = False \<and>
            u_created_at u < now - timedelta_days days_old) (users s))\<rparr>,
      s\<lparr>users := filter (\<lambda>u. \<not> (u_is_verified u = False \<and>
            u_created_at u < now - timedelta_days days_old)) (users s),
        commits := commits s + (length (filter (\<lambda>u. u_is_verified u = False \<and>
            u_created_at u < now - timedelta_days days_old) (users s)) + 99) div 100\<rparr>)"
proof -
  have e: "stale c = (\<lambda>u. u_is_verified u = False \<and> u_created_at u < c)" for c
    by (rule ext) (simp add: stale_def)
  have r: "\<forall>u \<in> set (users s). stale (now - timedelta_days days_old) u \<longrightarrow> \<not> referenced s u"
    using assms(2) by (simp add: stale_def)
  show ?thesis
    unfolding delete_unverified_users_def Let_def
      delete_unverified_users_loop_result [OF assms(1) r]
    by (simp add: e)
qed

lemma select_batch_bound: "length (select_batch c s) \<le> 100"
  by (simp add: select_batch_def batch_size_def)

text \<open>
  Claim C8 asks that \<open>delete_unverified_users\<close> returns, for every database, the
  number of unverified users created before the cutoff, and deletes them. The
  task terminates on every database (the loop is a total function), but it deletes
  a user without the token rows that refer to it. In the database that one signup
  leaves behind, run three days later with \<open>days_old = 2\<close>, the only user is stale and
  owns its verification token: the commit of the batch is rejected, nobody is
  deleted, and the task ends in \<open>self.retry\<close>, where the claim gives the count 1.
\<close>

theorem delete_unverified_users_rejected:
  "signup example_hash ''6f1c2a3e-0b7d-4c55-9e21-5d0a8b9c4f10'' 0
     \<lparr>uc_email = ''old_unverified@example.com'', uc_password = ''TestPassword123!''\<rparr> empty_db =
     (Inr ''User registered successfully. Please check your email to verify your account.'',
      signed_up_db) \<and>
   length (filter (\<lambda>u. u_is_verified u = False \<and>
       u_created_at u < 259200000000 - timedelta_days 2) (users signed_up_db)) = 1 \<and>
   delete_unverified_users 259200000000 2 signed_up_db =
     (Inl (Retry IntegrityError), signed_up_db)"
proof (intro conjI)
  show "signup example_hash ''6f1c2a3e-0b7d-4c55-9e21-5d0a8b9c4f10'' 0
     \<lparr>uc_email = ''old_unverified@example.com'', uc_password = ''TestPassword123!''\<rparr> empty_db =
     (Inr ''User registered successfully. Please check your email to verify your account.'',
      signed_up_db)"
    by (simp add: signup_def empty_db_def signed_up_db_def example_hash_def
        timedelta_minutes_def Let_def)
  show "length (filter (\<lambda>u. u_is_verified u = False \<and>
       u_created_at u < 259200000000 - timedelta_days 2) (users signed_up_db)) = 1"
    by (simp add: signed_up_db_def timedelta_days_def)
  have b: "select_batch (259200000000 - timedelta_days 2) signed_up_db = users signed_up_db"
    by (simp add: select_batch_def stale_def batch_size_def signed_up_db_def timedelta_days_def)
  have r: "\<exists>user \<in> set (users signed_up_db). referenced signed_up_db user"
    by (simp add: referenced_def signed_up_db_def)
  have n: "users signed_up_db \<noteq> []"
    by (simp add: signed_up_db_def)
  have "delete_unverified_users_loop (259200000000 - timedelta_days 2) 0 signed_up_db =
        (Inl IntegrityError, signed_up_db)"
    by (subst delete_unverified_users_loop.simps) (simp add: b r n delete_Users_commit_def)
  then show "delete_unverified_users 259200000000 2 signed_up_db =
     (Inl (Retry IntegrityError), signed_up_db)"
    by (simp add: delete_unverified_users_def)
qed

theorem delete_unverified_users_rejected_witness:
  "fst (delete_unverified_users 259200000000 2 signed_up_db) \<noteq>
     Inr \<lparr>dr_status = ''success'', deleted_count = 1\<rparr> \<and>
   users (snd (delete_unverified_users 259200000000 2 signed_up_db)) = users signed_up_db"
  using delete_unverified_users_rejected by simp

section \<open>Single use of a verification token\<close>

lemma consumed_fails:
  assumes "consumed t s"
  shows "verify_email now t s =
           (Inl (HTTPException 400 ''Invalid or expired verification token'' []), s)"
    and "AuthService_verify_email now t s = (False, s)"
proof -
  have "first (filter (\<lambda>v. vt_token v = t \<and> vt_token_type v = ''email_verification'' \<and>
          vt_revoked v = False \<and> vt_expires_at v > now) (verification_tokens s)) = None"
    using assms by (auto simp: first_filter_None consumed_def)
  then show "verify_email now t s =
           (Inl (HTTPException 400 ''Invalid or expired verification token'' []), s)"
    and "AuthService_verify_email now t s = (False, s)"
    by (simp_all add: verify_email_def AuthService_verify_email_def)
qed

lemma service_verify_email_state:
  "AuthService_verify_email now t s = (True, s1) \<Longrightarrow> \<exists>msg. verify_email now t s = (Inr msg, s1)"
  by (auto simp: verify_email_def AuthService_verify_email_def split: option.splits)

lemma verify_email_consumes:
  assumes "verify_email now t s = (Inr msg, s1)"
    and "distinct (map vt_token (verification_tokens s))"
  shows "consumed t s1"
proof -
  let ?live = "\<lambda>v. vt_token v = t \<and> vt_token_type v = ''email_verification'' \<and>
          vt_revoked v = False \<and> vt_expires_at v > now"
  obtain tok where f: "first (filter ?live (verification_tokens s)) = Some tok"
    using assms(1) by (auto simp: verify_email_def split: option.splits)
  then have tok: "tok \<in> set (verification_tokens s)" "vt_token tok = t"
    using first_filter_Some [OF f] by auto
  have vs: "verification_tokens s1 =
      map (\<lambda>v. if vt_id v = vt_id tok then v\<lparr>vt_revoked := True\<rparr> else v) (verification_tokens s)"
    using assms(1) f by (auto simp: verify_email_def split: option.splits)
  have inj: "inj_on vt_token (set (verification_tokens s))"
    using assms(2) by (simp add: distinct_map)
  show ?thesis
    unfolding consumed_def vs
  proof (intro ballI impI)
    fix v
    assume v: "v \<in> set (map (\<lambda>v. if vt_id v = vt_id tok then v\<lparr>vt_revoked := True\<rparr> else v)
                      (verification_tokens s))"
      and vt: "vt_token v = t"
    then obtain w where w: "w \<in> set (verification_tokens s)"
      and vw: "v = (if vt_id w = vt_id tok then w\<lparr>vt_revoked := True\<rparr> else w)"
      by auto
    then have "vt_token w = t" using vt by (auto split: if_splits)
    with inj w tok have "w = tok" by (auto dest: inj_onD)
    with vw show "vt_revoked v" by simp
  qed
qed

lemma delete_unverified_users_loop_tokens:
  "verification_tokens (snd (delete_unverified_users_loop c d s)) = verification_tokens s \<and>
   refresh_tokens (snd (delete_unverified_users_loop c d s)) = refresh_tokens s"
proof (induction c d s rule: delete_unverified_users_loop.induct)
  case (1 c d s)
  show ?case
  proof (cases "select_batch c s = []")
    case True
    then show ?thesis
      by (subst (1 2) delete_unverified_users_loop.simps) (simp add: Let_def)
  next
    case False
    show ?thesis
    proof (cases "delete_Users_commit (select_batch c s) s")
      case (Inl e)
      with False show ?thesis
        by (subst (1 2) delete_unverified_users_loop.simps) (simp add: Let_def)
    next
      case (Inr s1)
      then have "verification_tokens s1 = verification_tokens s"
        and "refresh_tokens s1 = refresh_tokens s"
        by (auto simp: delete_Users_commit_def split: if_splits)
      with "1.IH" [OF refl False Inr] False Inr show ?thesis
        by (subst (1 2) delete_unverified_users_loop.simps) (simp add: Let_def)
    qed
  qed
qed

lemma delete_unverified_users_tokens:
  "verification_tokens (snd (delete_unverified_users now days_old s)) = verification_tokens s \<and>
   refresh_tokens (snd (delete_unverified_users now days_old s)) = refresh_tokens s"
  using delete_unverified_users_loop_tokens [of "now - timedelta_days days_old" 0 s]
  by (auto simp: delete_unverified_users_def Let_def split: prod.splits sum.splits)

lemma handle_consumed:
  assumes "consumed t s" and "\<forall>user_in. snd ev \<noteq> Signup t user_in"
  shows "consumed t (handle st get_password_hash verify_password ev s)"
proof -
  obtain now rq where ev: "ev = (now, rq)" by (cases ev)
  show ?thesis
  proof (cases rq)
    case (Signup uuid user_in)
    then have "uuid \<noteq> t" using assms(2) ev by auto
    then show ?thesis
      using assms(1) by (auto simp: ev Signup signup_def consumed_def Let_def split: option.splits)
  next
    case (Login credentials)
    then show ?thesis
      using assms(1) by (simp add: ev login_state)
  next
    case (Refresh r)
    then show ?thesis
      using assms(1) by (simp add: ev refresh_token_frame)
  next
    case (VerifyEmail t2)
    then show ?thesis
      using assms(1) by (auto simp: ev verify_email_def consumed_def split: option.splits)
  next
    case CleanupExpiredTokens
    then show ?thesis
      using assms(1)
      by (auto simp: ev cleanup_expired_tokens_def consumed_def Let_def
          fold_session_delete_VerificationToken)
  next
    case (DeleteUnverifiedUsers days_old)
    have "verification_tokens (snd (delete_unverified_users now days_old s)) = verification_tokens s"
      by (simp add: delete_unverified_users_tokens)
    then show ?thesis
      using assms(1) by (simp add: ev DeleteUnverifiedUsers consumed_def)
  qed
qed

lemma run_consumed:
  "consumed t s \<Longrightarrow> \<forall>ev \<in> set evs. \<forall>user_in. snd ev \<noteq> Signup t user_in \<Longrightarrow>
   consumed t (run st get_password_hash verify_password evs s)"
proof (induction evs arbitrary: s)
  case Nil
  then show ?case by (simp add: run_def)
next
  case (Cons ev evs)
  have "consumed t (handle st get_password_hash verify_password ev s)"
    using Cons.prems by (intro handle_consumed) auto
  then have "consumed t (run st get_password_hash verify_password evs
      (handle st get_password_hash verify_password ev s))"
    using Cons.prems by (intro Cons.IH) auto
  then show ?case by (simp add: run_def)
qed

text \<open>
  Distinct token values stay distinct as long as every signup draws a value that no
  stored token has.
\<close>

lemma handle_distinct_tokens:
  assumes "distinct (map vt_token (verification_tokens s))"
    and "\<forall>uuid user_in. snd ev = Signup uuid user_in \<longrightarrow>
           uuid \<notin> vt_token ` set (verification_tokens s)"
  shows "distinct (map vt_token
           (verification_tokens (handle st get_password_hash verify_password ev s)))"
proof -
  obtain now rq where ev: "ev = (now, rq)" by (cases ev)
  show ?thesis
  proof (cases rq)
    case (Signup uuid user_in)
    then have "uuid \<notin> vt_token ` set (verification_tokens s)" using assms(2) ev by auto
    then show ?thesis
      using assms(1) by (auto simp: ev Signup signup_def Let_def split: option.splits)
  next
    case (Login credentials)
    then show ?thesis
      using assms(1) by (simp add: ev login_state)
  next
    case (Refresh r)
    then show ?thesis
      using assms(1) by (simp add: ev refresh_token_frame)
  next
    case (VerifyEmail t2)
    have c: "vt_token \<circ> (\<lambda>v. if vt_id v = k then v\<lparr>vt_revoked := True\<rparr> else v) = vt_token"
      for k :: int
      by (rule ext) simp
    show ?thesis
      using assms(1) by (auto simp: c ev VerifyEmail verify_email_def split: option.splits)
  next
    case CleanupExpiredTokens
    then show ?thesis
      using assms(1)
      by (simp add: ev cleanup_expired_tokens_def Let_def fold_session_delete_VerificationToken
          distinct_map_filter)
  next
    case (DeleteUnverifiedUsers days_old)
    have "verification_tokens (snd (delete_unverified_users now days_old s)) = verification_tokens s"
      by (simp add: delete_unverified_users_tokens)
    then show ?thesis
      using assms(1) by (simp add: ev DeleteUnverifiedUsers)
  qed
qed

text \<open>
  Claim C1. Let the verification succeed for the token value \<open>t\<close> (by the route or
  by the service method) in a database whose verification tokens have distinct
  values, and let any requests follow, none of them a signup for which \<open>uuid4\<close> draws
  \<open>t\<close> again. Then at every later time the route answers a verification with \<open>t\<close>
  by the 400 error "Invalid or expired verification token" and changes nothing, the
  service method returns \<open>False\<close>, and both answers are those for a value \<open>t'\<close> that
  no stored token has.
\<close>

theorem verification_token_single_use:
  assumes "verify_email now t s = (Inr msg, s1) \<or> AuthService_verify_email now t s = (True, s1)"
    and "distinct (map vt_token (verification_tokens s))"
    and "\<forall>ev \<in> set evs. \<forall>user_in. snd ev \<noteq> Signup t user_in"
    and "s2 = run st get_password_hash verify_password evs s1"
    and "\<forall>v \<in> set (verification_tokens s2). vt_token v \<noteq> t'"
  shows "verify_email now2 t s2 =
           (Inl (HTTPException 400 ''Invalid or expired verification token'' []), s2) \<and>
         verify_email now2 t s2 = verify_email now2 t' s2 \<and>
         AuthService_verify_email now2 t s2 = (False, s2) \<and>
         AuthService_verify_email now2 t s2 = AuthService_verify_email now2 t' s2"
proof -
  obtain m where "verify_email now t s = (Inr m, s1)"
    using assms(1) service_verify_email_state by blast
  then have "consumed t s1"
    using assms(2) by (rule verify_email_consumes)
  then have c: "consumed t s2"
    unfolding assms(4) using assms(3) by (rule run_consumed)
  have c': "consumed t' s2"
    using assms(5) by (simp add: consumed_def)
  show ?thesis
    using consumed_fails [OF c, of now2] consumed_fails [OF c', of now2] by simp
qed

theorem verification_token_single_use_witness:
  "verify_email (example_now + 3) ''live_verification_token''
     (run test_settings example_hash example_verify
        [(example_now + 1, VerifyEmail ''live_verification_token''),
         (example_now + 2, CleanupExpiredTokens)]
        (snd (verify_email example_now ''live_verification_token'' example_db))) =
   (Inl (HTTPException 400 ''Invalid or expired verification token'' []),
    run test_settings example_hash example_verify
        [(example_now + 1, VerifyEmail ''live_verification_token''),
         (example_now + 2, CleanupExpiredTokens)]
        (snd (verify_email example_now ''live_verification_token'' example_db))) \<and>
   verify_email (example_now + 3) ''live_verification_token''
     (run test_settings example_hash example_verify
        [(example_now + 1, VerifyEmail ''live_verification_token''),
         (example_now + 2, CleanupExpiredTokens)]
        (snd (verify_email example_now ''live_verification_token'' example_db))) =
   verify_email (example_now + 3) ''never_issued''
     (run test_settings example_hash example_verify
        [(example_now + 1, VerifyEmail ''live_verification_token''),
         (example_now + 2, CleanupExpiredTokens)]
        (snd (verify_email example_now ''live_verification_token'' example_db)))"
proof -
  let ?s1 = "snd (verify_email example_now ''live_verification_token'' example_db)"
  let ?evs = "[(example_now + 1, VerifyEmail ''live_verification_token''),
         (example_now + 2, CleanupExpiredTokens)]"
  let ?s2 = "run test_settings example_hash example_verify ?evs ?s1"
  have e: "verify_email example_now ''live_verification_token'' example_db =
      (Inr ''Email verified successfully'', ?s1)"
    by (simp add: verify_email_def db_get_User_def example_db_def example_now_def)
  then have h1: "verify_email example_now ''live_verification_token'' example_db =
      (Inr ''Email verified successfully'', ?s1) \<or>
    AuthService_verify_email example_now ''live_verification_token'' example_db = (True, ?s1)"
    by (rule disjI1)
  have h2: "distinct (map vt_token (verification_tokens example_db))"
    by (simp add: example_db_def)
  have h3: "\<forall>ev \<in> set ?evs. \<forall>user_in. snd ev \<noteq> Signup ''live_verification_token'' user_in"
    by simp
  have h5: "\<forall>v \<in> set (verification_tokens ?s2). vt_token v \<noteq> ''never_issued''"
    by (simp add: run_def verify_email_def db_get_User_def cleanup_expired_tokens_def
        session_delete_VerificationToken_def session_delete_RefreshToken_def Let_def
        example_db_def example_now_def)
  show ?thesis
    using verification_token_single_use [OF h1 h2 h3 refl h5, of "example_now + 3"] by blast
qed


section \<open>Issue and expiry of refresh tokens\<close>




end
